theory Spec2Isabelle
  imports Main "HOL-Library.Sublist"
begin

section \<open>Strings\<close>

text \<open>
  JavaScript strings are modelled as HOL strings, one \<^typ>\<open>char\<close> per character, read as
  the code points 0 to 255 (Latin-1). \<open>String.prototype.toLowerCase\<close> maps, in that range,
  \<open>A\<close> to \<open>Z\<close> and the accented capitals \<open>0xC0\<close> to \<open>0xDE\<close> (the multiplication sign
  \<open>0xD7\<close> apart) to the character 32 places later, and leaves every other character alone.
\<close>

definition upper_chars :: "char list" where
  "upper_chars = ''ABCDEFGHIJKLMNOPQRSTUVWXYZ'' @
     [CHR 0xC0, CHR 0xC1, CHR 0xC2, CHR 0xC3, CHR 0xC4, CHR 0xC5, CHR 0xC6, CHR 0xC7,
      CHR 0xC8, CHR 0xC9, CHR 0xCA, CHR 0xCB, CHR 0xCC, CHR 0xCD, CHR 0xCE, CHR 0xCF,
      CHR 0xD0, CHR 0xD1, CHR 0xD2, CHR 0xD3, CHR 0xD4, CHR 0xD5, CHR 0xD6,
      CHR 0xD8, CHR 0xD9, CHR 0xDA, CHR 0xDB, CHR 0xDC, CHR 0xDD, CHR 0xDE]"

definition lower_chars :: "char list" where
  "lower_chars = ''abcdefghijklmnopqrstuvwxyz'' @
     [CHR 0xE0, CHR 0xE1, CHR 0xE2, CHR 0xE3, CHR 0xE4, CHR 0xE5, CHR 0xE6, CHR 0xE7,
      CHR 0xE8, CHR 0xE9, CHR 0xEA, CHR 0xEB, CHR 0xEC, CHR 0xED, CHR 0xEE, CHR 0xEF,
      CHR 0xF0, CHR 0xF1, CHR 0xF2, CHR 0xF3, CHR 0xF4, CHR 0xF5, CHR 0xF6,
      CHR 0xF8, CHR 0xF9, CHR 0xFA, CHR 0xFB, CHR 0xFC, CHR 0xFD, CHR 0xFE]"

definition lower_char :: "char \<Rightarrow> char" where
  "lower_char c = (case map_of (zip upper_chars lower_chars) c of Some d \<Rightarrow> d | None \<Rightarrow> c)"

definition toLowerCase :: "string \<Rightarrow> string" where
  "toLowerCase text = map lower_char text"

text \<open>\<open>text.includes(word)\<close>: \<open>word\<close> occurs in \<open>text\<close> at some position.\<close>

fun js_includes :: "string \<Rightarrow> string \<Rightarrow> bool" where
  "js_includes [] word = (word = [])"
| "js_includes (c # cs) word = (prefix word (c # cs) \<or> js_includes cs word)"

text \<open>
  The white space class \<open>\s\<close> of a JavaScript regular expression, within Latin-1: tab,
  line feed, vertical tab, form feed, carriage return, space and no-break space.
\<close>

definition is_space :: "char \<Rightarrow> bool" where
  "is_space c = (c \<in> set [CHR 0x09, CHR 0x0A, CHR 0x0B, CHR 0x0C, CHR 0x0D, CHR 0x20, CHR 0xA0])"

text \<open>\<open>s.replace(/\s+/g, '-')\<close>: every maximal run of white space becomes one hyphen.\<close>

function replace_spaces :: "string \<Rightarrow> string" where
  "replace_spaces [] = []"
| "replace_spaces (c # cs) =
     (if is_space c then CHR ''-'' # replace_spaces (dropWhile is_space cs)
      else c # replace_spaces cs)"
  by pat_completeness auto
termination
  by (relation "measure length") (auto simp: le_imp_less_Suc length_dropWhile_le)

text \<open>\<open>s.replace(/\\/g, "/")\<close>: every backslash becomes a forward slash.\<close>

definition replace_backslashes :: "string \<Rightarrow> string" where
  "replace_backslashes s = map (\<lambda>c. if c = CHR 0x5C then CHR ''/'' else c) s"

text \<open>The decimal digits of a number, as \<open>Date.now() + '-' + ...\<close> renders it.\<close>

fun number_to_string :: "nat \<Rightarrow> string" where
  "number_to_string n =
     (if n < 10 then [''0123456789'' ! n]
      else number_to_string (n div 10) @ [''0123456789'' ! (n mod 10)])"

section \<open>The moderation system\<close>

definition BANNED_KEYWORDS :: "string list" where
  "BANNED_KEYWORDS = [''gore'', ''violence'', ''nude'', ''nsfw'', ''xxx'', ''kill'', ''blood'']"

text \<open>
  A text field of a request is a string or absent (\<open>undefined\<close>): \<^typ>\<open>string option\<close>.
  \<open>!text\<close> holds of the absent field and of the empty string.
\<close>

definition checkContentSafety :: "string option \<Rightarrow> bool" where
  "checkContentSafety text =
     (case text of
        None \<Rightarrow> True
      | Some t \<Rightarrow>
          if t = [] then True
          else let lowerText = toLowerCase t
               in \<not> list_ex (\<lambda>word. js_includes lowerText word) BANNED_KEYWORDS)"

text \<open>
  The moderation contract in the specification's words: lowercase the banned term and the
  input, substring match, any match is unsafe.
\<close>

definition spec_contains_denylisted :: "string \<Rightarrow> bool" where
  "spec_contains_denylisted t =
     (\<exists>w \<in> set BANNED_KEYWORDS. sublist (toLowerCase w) (toLowerCase t))"

section \<open>The data model\<close>

text \<open>A document of the \<open>Note\<close> collection, as \<open>NoteSchema\<close> declares it.\<close>

record Note =
  branch :: string
  subject :: string
  topic :: string
  description :: "string option"
  filePath :: string
  originalName :: string
  uploadDate :: nat

text \<open>The file part of a multipart request, and \<open>req.file\<close> once the disk storage has it.\<close>

record file_part =
  originalname :: string
  mimetype :: string
  content :: string

record stored_file = file_part +
  path :: string

text \<open>An upload request: the text fields of \<open>req.body\<close> and the optional file part.\<close>

record upload_request =
  req_branch :: "string option"
  req_subject :: "string option"
  req_topic :: "string option"
  req_description :: "string option"
  req_file :: "file_part option"

text \<open>A search request: the query parameters \<open>q\<close> and \<open>branch\<close>.\<close>

record search_request =
  query_q :: "string option"
  query_branch :: "string option"

text \<open>
  Thrown values. A plain \<open>Error\<close> carries its message; a validation error of the schema
  lists the required paths that have no value.
\<close>

datatype js_error = Error string | ValidationError "string list"

fun required_messages :: "string list \<Rightarrow> string" where
  "required_messages [] = []"
| "required_messages [p] = p @ '': Path `'' @ p @ ''` is required.''"
| "required_messages (p # ps) = p @ '': Path `'' @ p @ ''` is required., '' @ required_messages ps"

fun message :: "js_error \<Rightarrow> string" where
  "message (Error m) = m"
| "message (ValidationError ps) = ''Note validation failed: '' @ required_messages ps"

text \<open>
  The two stores and what was asked of the note store. \<open>note_store\<close> holds the collection in
  insertion order, \<open>blob_store\<close> the files of the upload directory by path. \<open>db_fault\<close> is the
  message of the error every operation of the note store throws while the database is
  failing (\<open>None\<close>: it is working). \<open>store_log\<close> records each operation sent to the note
  store.
\<close>

datatype store_op = FindText string | FindRecent | Insert Note

record world =
  note_store :: "Note list"
  blob_store :: "string \<rightharpoonup> string"
  db_fault :: "string option"
  store_log :: "store_op list"

text \<open>The fallback card of a search response, and the responses of the routes.\<close>

record external_knowledge =
  source :: string
  title :: string
  summary :: string

datatype json_body =
    ErrorJson string
  | MessageJson string
  | SearchJson "Note list" "external_knowledge option"
  | NotesJson "Note list"
  | ErrorPage string

record response =
  status :: nat
  body :: json_body

text \<open>
  What a request reads from its surroundings: the path separator of the platform
  (\<open>path.join\<close> uses it), and \<open>Date.now()\<close> when the file is named and when the note is
  constructed.
\<close>

record env =
  path_sep :: char
  file_clock :: nat
  note_clock :: nat

section \<open>The note store\<close>

text \<open>
  \<open>Note.find({ $text: { $search: query } }).limit(10)\<close>. The text index of the database is
  not part of the program: \<open>engine\<close> stands for it, giving the documents that match a
  query in the order the database returns them.
\<close>

definition Note_find_text ::
  "(string \<Rightarrow> Note list \<Rightarrow> Note list) \<Rightarrow> string \<Rightarrow> world \<Rightarrow> (js_error + Note list) \<times> world" where
  "Note_find_text engine query w =
     (let w' = w\<lparr>store_log := store_log w @ [FindText query]\<rparr>
      in case db_fault w of
           Some m \<Rightarrow> (Inl (Error m), w')
         | None \<Rightarrow> (Inr (take 10 (engine query (note_store w))), w'))"

text \<open>
  \<open>Note.find().sort({ uploadDate: -1 }).limit(20)\<close>: a descending sort on the upload date,
  then the first 20. The database fixes no order among documents with equal dates; the
  model keeps them in their stored order.
\<close>

definition Note_find_recent :: "world \<Rightarrow> (js_error + Note list) \<times> world" where
  "Note_find_recent w =
     (let w' = w\<lparr>store_log := store_log w @ [FindRecent]\<rparr>
      in case db_fault w of
           Some m \<Rightarrow> (Inl (Error m), w')
         | None \<Rightarrow> (Inr (take 20 (sort_key (\<lambda>n. - int (uploadDate n)) (note_store w))), w'))"

text \<open>
  A path declared \<open>required: true\<close> fails validation when it has no value or, for a
  string, the empty one.
\<close>

definition required_missing :: "string option \<Rightarrow> bool" where
  "required_missing v = (case v of None \<Rightarrow> True | Some s \<Rightarrow> s = [])"

definition missing_paths ::
  "string option \<Rightarrow> string option \<Rightarrow> string option \<Rightarrow> string \<Rightarrow> string list" where
  "missing_paths b s t fp =
     (if required_missing b then [''branch''] else []) @
     (if required_missing s then [''subject''] else []) @
     (if required_missing t then [''topic''] else []) @
     (if fp = [] then [''filePath''] else [])"

text \<open>
  \<open>new Note({...})\<close> followed by \<open>save()\<close>: the schema gives \<open>uploadDate\<close> its default
  \<open>Date.now\<close>, the document is validated, and only a valid one is sent to the database.
\<close>

definition Note_save ::
  "nat \<Rightarrow> string option \<Rightarrow> string option \<Rightarrow> string option \<Rightarrow> string option \<Rightarrow> string \<Rightarrow> string
     \<Rightarrow> world \<Rightarrow> (js_error + Note) \<times> world" where
  "Note_save now b s t d fp orig w =
     (if missing_paths b s t fp \<noteq> [] then (Inl (ValidationError (missing_paths b s t fp)), w)
      else
        let newNote = \<lparr>branch = the b, subject = the s, topic = the t, description = d,
                       filePath = fp, originalName = orig, uploadDate = now\<rparr>;
            w' = w\<lparr>store_log := store_log w @ [Insert newNote]\<rparr>
        in case db_fault w of
             Some m \<Rightarrow> (Inl (Error m), w')
           | None \<Rightarrow> (Inr newNote, w'\<lparr>note_store := note_store w @ [newNote]\<rparr>))"

section \<open>File storage\<close>

text \<open>The \<open>filename\<close> callback of the disk storage: timestamp, hyphen, original name.\<close>

definition storage_filename :: "nat \<Rightarrow> file_part \<Rightarrow> string" where
  "storage_filename now file = number_to_string now @ ''-'' @ replace_spaces (originalname file)"

text \<open>
  The disk storage writes the file to \<open>path.join('uploads/', filename)\<close>: the directory,
  the separator of the platform, the file name. (The multipart parser keeps the base
  name of the original name only, so the file name holds no separator of its own.)
\<close>

definition storage_path :: "env \<Rightarrow> file_part \<Rightarrow> string" where
  "storage_path e file = ''uploads'' @ [path_sep e] @ storage_filename (file_clock e) file"

definition fileFilter :: "file_part \<Rightarrow> js_error + bool" where
  "fileFilter file =
     (if mimetype file = ''application/pdf'' then Inr True
      else Inl (Error ''Only PDF files are allowed!''))"

text \<open>
  \<open>upload.single('file')\<close>: a request without a file part goes on with \<open>req.file\<close>
  undefined; a file part the filter accepts is written to disk and goes on as \<open>req.file\<close>;
  a file part the filter rejects is not written, and its error is passed to \<open>next\<close>.
\<close>

definition upload_single ::
  "env \<Rightarrow> upload_request \<Rightarrow> world \<Rightarrow> js_error + (stored_file option \<times> world)" where
  "upload_single e req w =
     (case req_file req of
        None \<Rightarrow> Inr (None, w)
      | Some file \<Rightarrow>
          (case fileFilter file of
             Inl err \<Rightarrow> Inl err
           | Inr _ \<Rightarrow>
               let p = storage_path e file
               in Inr (Some \<lparr>originalname = originalname file, mimetype = mimetype file,
                              content = content file, path = p\<rparr>,
                       w\<lparr>blob_store := (blob_store w)(p \<mapsto> content file)\<rparr>)))"

text \<open>\<open>fs.unlinkSync\<close>: removes the file, and throws when there is none at the path.\<close>

definition fs_unlinkSync :: "string \<Rightarrow> world \<Rightarrow> js_error + world" where
  "fs_unlinkSync p w =
     (if blob_store w p = None then Inl (Error (''ENOENT: no such file or directory, unlink '' @ p))
      else Inr (w\<lparr>blob_store := (blob_store w)(p := None)\<rparr>))"

section \<open>The routes\<close>

text \<open>
  The application registers no error-handling middleware, so an error passed to \<open>next\<close>
  reaches the default handler of the framework (Express): the error has no \<open>status\<close>
  or \<open>statusCode\<close> of its own, so the answer is 500, with an error page built from the
  error and not the JSON of the routes.
\<close>

definition default_error_handler :: "js_error \<Rightarrow> response" where
  "default_error_handler err = \<lparr>status = 500, body = ErrorPage (message err)\<rparr>"

text \<open>The handler of \<open>POST /api/upload\<close>, run once \<open>upload.single\<close> has gone on.\<close>

definition upload_handler ::
  "env \<Rightarrow> upload_request \<Rightarrow> stored_file option \<Rightarrow> world \<Rightarrow> response \<times> world" where
  "upload_handler e req file w =
     (if \<not> checkContentSafety (req_topic req) \<or> \<not> checkContentSafety (req_description req) then
        (case file of
           Some f \<Rightarrow>
             (case fs_unlinkSync (path f) w of
                Inl err \<Rightarrow> (\<lparr>status = 500, body = ErrorJson (message err)\<rparr>, w)
              | Inr w' \<Rightarrow>
                  (\<lparr>status = 400, body = ErrorJson ''Content flagged by moderation system.''\<rparr>, w'))
         | None \<Rightarrow>
             (\<lparr>status = 400, body = ErrorJson ''Content flagged by moderation system.''\<rparr>, w))
      else
        (case file of
           None \<Rightarrow> (\<lparr>status = 400, body = ErrorJson ''No file uploaded.''\<rparr>, w)
         | Some f \<Rightarrow>
             (case Note_save (note_clock e) (req_branch req) (req_subject req) (req_topic req)
                     (req_description req) (replace_backslashes (path f)) (originalname f) w of
                (Inl err, w') \<Rightarrow> (\<lparr>status = 500, body = ErrorJson (message err)\<rparr>, w')
              | (Inr _, w') \<Rightarrow> (\<lparr>status = 201, body = MessageJson ''Upload successful!''\<rparr>, w'))))"

definition upload_route :: "env \<Rightarrow> upload_request \<Rightarrow> world \<Rightarrow> response \<times> world" where
  "upload_route e req w =
     (case upload_single e req w of
        Inl err \<Rightarrow> (default_error_handler err, w)
      | Inr (file, w') \<Rightarrow> upload_handler e req file w')"

text \<open>\<open>GET /api/search\<close>. \<open>req.query.branch || 'engineering'\<close> is the branch hint.\<close>

definition branch_hint :: "string option \<Rightarrow> string" where
  "branch_hint b = (case b of None \<Rightarrow> ''engineering'' | Some s \<Rightarrow> if s = [] then ''engineering'' else s)"

definition fallback_summary :: "string \<Rightarrow> string option \<Rightarrow> external_knowledge" where
  "fallback_summary query b =
     \<lparr>source = ''External Knowledge Base'',
      title = ''Concept Summary: '' @ query,
      summary = ''We found limited local PDFs, but here is what you need to know about '' @ query @
        ''. This topic usually covers foundational principles in '' @ branch_hint b @
        ''. Important questions often involve derivations and practical applications.''\<rparr>"

definition search_route ::
  "(string \<Rightarrow> Note list \<Rightarrow> Note list) \<Rightarrow> search_request \<Rightarrow> world \<Rightarrow> response \<times> world" where
  "search_route engine req w =
     (case query_q req of
        None \<Rightarrow> (\<lparr>status = 200, body = SearchJson [] None\<rparr>, w)
      | Some query \<Rightarrow>
          if query = [] then (\<lparr>status = 200, body = SearchJson [] None\<rparr>, w)
          else
            (case Note_find_text engine query w of
               (Inl err, w') \<Rightarrow> (\<lparr>status = 500, body = ErrorJson ''Search failed''\<rparr>, w')
             | (Inr internalResults, w') \<Rightarrow>
                 let externalKnowledge =
                       (if length internalResults < 3
                        then Some (fallback_summary query (query_branch req)) else None)
                 in (\<lparr>status = 200, body = SearchJson internalResults externalKnowledge\<rparr>, w')))"

text \<open>\<open>GET /api/notes\<close>.\<close>

definition notes_route :: "world \<Rightarrow> response \<times> world" where
  "notes_route w =
     (case Note_find_recent w of
        (Inl err, w') \<Rightarrow> (\<lparr>status = 500, body = ErrorJson (message err)\<rparr>, w')
      | (Inr found, w') \<Rightarrow> (\<lparr>status = 200, body = NotesJson found\<rparr>, w'))"

text \<open>The note records a response carries.\<close>

definition response_notes :: "response \<Rightarrow> Note list" where
  "response_notes r =
     (case body r of
        NotesJson ns \<Rightarrow> ns
      | SearchJson ns _ \<Rightarrow> ns
      | _ \<Rightarrow> [])"

section \<open>Properties of a listing\<close>

definition descending_dates :: "Note list \<Rightarrow> bool" where
  "descending_dates ns = sorted_wrt (\<lambda>a b. uploadDate b \<le> uploadDate a) ns"

definition strictly_descending_dates :: "Note list \<Rightarrow> bool" where
  "strictly_descending_dates ns = sorted_wrt (\<lambda>a b. uploadDate b < uploadDate a) ns"

section \<open>Sample inputs\<close>

abbreviation (input) sample_env :: env where
  "sample_env \<equiv> \<lparr>path_sep = CHR 0x5C, file_clock = 42, note_clock = 43\<rparr>"

abbreviation (input) empty_world :: world where
  "empty_world \<equiv> \<lparr>note_store = [], blob_store = Map.empty, db_fault = None, store_log = []\<rparr>"

abbreviation (input) sample_pdf :: file_part where
  "sample_pdf \<equiv>
     \<lparr>originalname = ''my  notes.pdf'', mimetype = ''application/pdf'', content = ''%PDF-1.4''\<rparr>"

abbreviation (input) sample_request :: upload_request where
  "sample_request \<equiv>
     \<lparr>req_branch = Some ''Civil'', req_subject = Some ''Fluid Mechanics'',
      req_topic = Some ''Bernoulli'', req_description = Some ''intro'',
      req_file = Some sample_pdf\<rparr>"

abbreviation (input) sample_note :: "string \<Rightarrow> nat \<Rightarrow> Note" where
  "sample_note t d \<equiv>
     \<lparr>branch = ''Mechanical'', subject = ''Heat'', topic = t, description = None,
      filePath = ''uploads/1-a.pdf'', originalName = ''a.pdf'', uploadDate = d\<rparr>"

abbreviation (input) topic_engine :: "string \<Rightarrow> Note list \<Rightarrow> Note list" where
  "topic_engine \<equiv> \<lambda>q ns. filter (\<lambda>n. topic n = q) ns"

section \<open>Facts about strings\<close>

lemmas lower_eval = toLowerCase_def lower_char_def upper_chars_def lower_chars_def

lemma js_includes_sublist: "js_includes s word = sublist word s"
  by (induction s) (auto simp: sublist_Cons_right)

lemma banned_lower: "w \<in> set BANNED_KEYWORDS \<Longrightarrow> toLowerCase w = w"
  by (auto simp: BANNED_KEYWORDS_def lower_eval)

lemma banned_nonempty: "w \<in> set BANNED_KEYWORDS \<Longrightarrow> w \<noteq> []"
  by (auto simp: BANNED_KEYWORDS_def)

lemma checkContentSafety_Some:
  "checkContentSafety (Some t) = (\<not> spec_contains_denylisted t)"
proof (cases "t = []")
  case True
  then show ?thesis
    by (auto simp: checkContentSafety_def spec_contains_denylisted_def toLowerCase_def
        dest: banned_nonempty)
next
  case False
  have "list_ex (\<lambda>word. js_includes (toLowerCase t) word) BANNED_KEYWORDS
        = (\<exists>w \<in> set BANNED_KEYWORDS. sublist (toLowerCase w) (toLowerCase t))"
    by (simp add: list_ex_iff js_includes_sublist banned_lower)
  with False show ?thesis
    by (simp add: checkContentSafety_def spec_contains_denylisted_def)
qed

text \<open>
  A term occurs in the lowercased text exactly when some stretch of the text itself
  lowercases to the term: the match ignores the case of the input.
\<close>

lemma sublist_toLowerCase:
  "sublist w (toLowerCase t) \<longleftrightarrow> (\<exists>u. sublist u t \<and> toLowerCase u = w)"
proof
  assume "sublist w (toLowerCase t)"
  then obtain ps ss where "map lower_char t = ps @ (w @ ss)"
    by (auto simp: sublist_def toLowerCase_def)
  then obtain us vs where t: "t = us @ vs" and vs: "w @ ss = map lower_char vs"
    by (auto simp: map_eq_append_conv)
  from vs obtain u v where "vs = u @ v" and "w = map lower_char u"
    by (auto simp: append_eq_map_conv)
  with t have "sublist u t \<and> toLowerCase u = w"
    by (auto simp: sublist_def toLowerCase_def)
  then show "\<exists>u. sublist u t \<and> toLowerCase u = w" ..
next
  assume "\<exists>u. sublist u t \<and> toLowerCase u = w"
  then obtain u ps ss where "t = ps @ u @ ss" and "toLowerCase u = w"
    by (auto simp: sublist_def)
  then have "toLowerCase t = toLowerCase ps @ w @ toLowerCase ss"
    by (simp add: toLowerCase_def)
  then show "sublist w (toLowerCase t)"
    unfolding sublist_def by blast
qed

lemma safe_Bernoulli: "checkContentSafety (Some ''Bernoulli'')"
  by (simp add: checkContentSafety_def BANNED_KEYWORDS_def lower_eval)

lemma safe_intro: "checkContentSafety (Some ''intro'')"
  by (simp add: checkContentSafety_def BANNED_KEYWORDS_def lower_eval)

lemma unsafe_Blood_flow: "\<not> checkContentSafety (Some ''Blood flow'')"
  by (simp add: checkContentSafety_def BANNED_KEYWORDS_def lower_eval)

lemma unsafe_KILL: "\<not> checkContentSafety (Some ''KILL'')"
  by (simp add: checkContentSafety_def BANNED_KEYWORDS_def lower_eval)

lemma lower_skilled: "toLowerCase ''A sKiLLed worker'' = ''a skilled worker''"
  by (simp add: lower_eval)

lemma lower_fluid: "toLowerCase ''Fluid Mechanics'' = ''fluid mechanics''"
  by (simp add: lower_eval)

lemma fluid_no_term: "w \<in> set BANNED_KEYWORDS \<Longrightarrow> \<not> js_includes ''fluid mechanics'' w"
  by (auto simp: BANNED_KEYWORDS_def)

lemma no_backslash: "CHR 0x5C \<notin> set (replace_backslashes s)"
  by (auto simp: replace_backslashes_def)

lemma replace_backslashes_nth:
  "i < length s \<Longrightarrow>
   replace_backslashes s ! i = (if s ! i = CHR 0x5C then CHR ''/'' else s ! i)"
  by (simp add: replace_backslashes_def)

lemma replace_backslashes_nonempty: "replace_backslashes (storage_path e f) \<noteq> []"
  by (simp add: replace_backslashes_def storage_path_def)

lemma sample_path:
  "storage_path sample_env sample_pdf = ''uploads'' @ [CHR 0x5C] @ ''42-my-notes.pdf''"
  by (simp add: storage_path_def storage_filename_def is_space_def)

section \<open>Facts about the upload pipeline\<close>

lemma upload_single_pdf:
  assumes "req_file req = Some f" "mimetype f = ''application/pdf''"
  shows "upload_single e req w =
           Inr (Some \<lparr>originalname = originalname f, mimetype = mimetype f,
                       content = content f, path = storage_path e f\<rparr>,
                w\<lparr>blob_store := (blob_store w)(storage_path e f \<mapsto> content f)\<rparr>)"
  using assms by (simp add: upload_single_def fileFilter_def Let_def)

lemma upload_single_none:
  assumes "req_file req = None"
  shows "upload_single e req w = Inr (None, w)"
  using assms by (simp add: upload_single_def)

lemma upload_single_other:
  assumes "req_file req = Some f" "mimetype f \<noteq> ''application/pdf''"
  shows "upload_single e req w = Inl (Error ''Only PDF files are allowed!'')"
  using assms by (simp add: upload_single_def fileFilter_def)

lemma upload_route_accepted:
  assumes pdf: "req_file req = Some f" "mimetype f = ''application/pdf''"
    and safe: "checkContentSafety (req_topic req)" "checkContentSafety (req_description req)"
    and fields: "req_branch req = Some b" "b \<noteq> []" "req_subject req = Some s" "s \<noteq> []"
      "req_topic req = Some t" "t \<noteq> []"
    and db: "db_fault w = None"
  shows "upload_route e req w =
           (\<lparr>status = 201, body = MessageJson ''Upload successful!''\<rparr>,
            w\<lparr>blob_store := (blob_store w)(storage_path e f \<mapsto> content f),
              store_log := store_log w @
                [Insert \<lparr>branch = b, subject = s, topic = t, description = req_description req,
                   filePath = replace_backslashes (storage_path e f),
                   originalName = originalname f, uploadDate = note_clock e\<rparr>],
              note_store := note_store w @
                [\<lparr>branch = b, subject = s, topic = t, description = req_description req,
                   filePath = replace_backslashes (storage_path e f),
                   originalName = originalname f, uploadDate = note_clock e\<rparr>]\<rparr>)"
  using safe fields db
  by (simp add: upload_route_def upload_single_pdf [OF pdf] upload_handler_def Note_save_def
      missing_paths_def required_missing_def replace_backslashes_nonempty Let_def)

section \<open>Facts about the listing\<close>

lemma descending_strict:
  "sorted_wrt (\<lambda>a b. uploadDate b \<le> uploadDate a) ns \<Longrightarrow> distinct (map uploadDate ns) \<Longrightarrow>
   sorted_wrt (\<lambda>a b. uploadDate b < uploadDate a) ns"
proof (induction ns)
  case Nil
  then show ?case by simp
next
  case (Cons a ns)
  have "uploadDate x < uploadDate a" if "x \<in> set ns" for x
  proof -
    from that Cons.prems(1) have "uploadDate x \<le> uploadDate a" by simp
    moreover from Cons.prems(2) have "uploadDate a \<notin> uploadDate ` set ns" by simp
    with that have "uploadDate x \<noteq> uploadDate a" by (metis image_eqI)
    ultimately show ?thesis by simp
  qed
  with Cons show ?case by simp
qed

lemma sort_descending:
  "sorted_wrt (\<lambda>a b. uploadDate b \<le> uploadDate a) (sort_key (\<lambda>n. - int (uploadDate n)) ns)"
proof -
  have "sorted (map (\<lambda>n. - int (uploadDate n)) (sort_key (\<lambda>n. - int (uploadDate n)) ns))"
    by (rule sorted_sort_key)
  then show ?thesis
    by (simp add: sorted_map)
qed

lemma sort_distinct_dates:
  assumes "distinct (map uploadDate ns)"
  shows "distinct (map uploadDate (sort_key (\<lambda>n. - int (uploadDate n)) ns))"
  using assms by (simp add: distinct_map)

lemma recent_descending:
  "descending_dates (take 20 (sort_key (\<lambda>n. - int (uploadDate n)) ns))"
  unfolding descending_dates_def by (rule sorted_wrt_take) (rule sort_descending)

lemma recent_strict:
  assumes "distinct (map uploadDate ns)"
  shows "strictly_descending_dates (take 20 (sort_key (\<lambda>n. - int (uploadDate n)) ns))"
  unfolding strictly_descending_dates_def
  by (rule sorted_wrt_take) (rule descending_strict [OF sort_descending sort_distinct_dates [OF assms]])

lemma notes_route_cases:
  "response_notes (fst (notes_route w)) =
     (case db_fault w of
        Some m \<Rightarrow> []
      | None \<Rightarrow> take 20 (sort_key (\<lambda>n. - int (uploadDate n)) (note_store w)))"
  by (simp add: response_notes_def notes_route_def Note_find_recent_def Let_def split: option.splits)

section \<open>The moderation filter\<close>

text \<open>
  C2. A text that contains a denylisted term as a case-insensitive substring is not safe,
  a text free of denylisted substrings is safe, and the absent text and the empty text
  are both safe.
\<close>

theorem checkContentSafety_contract:
  "(spec_contains_denylisted t \<longrightarrow> \<not> checkContentSafety (Some t)) \<and>
   (\<not> spec_contains_denylisted t \<longrightarrow> checkContentSafety (Some t)) \<and>
   checkContentSafety None \<and> checkContentSafety (Some '''')"
proof -
  have absent: "checkContentSafety None" and empty: "checkContentSafety (Some '''')"
    by (simp_all add: checkContentSafety_def)
  show ?thesis
    using absent empty by (simp add: checkContentSafety_Some [of t])
qed

theorem checkContentSafety_contract_witness:
  "spec_contains_denylisted ''A sKiLLed worker'' \<and>
   \<not> checkContentSafety (Some ''A sKiLLed worker'') \<and>
   \<not> spec_contains_denylisted ''Fluid Mechanics'' \<and>
   checkContentSafety (Some ''Fluid Mechanics'')"
proof -
  have hit: "spec_contains_denylisted ''A sKiLLed worker''"
    unfolding spec_contains_denylisted_def
    by (rule bexI [of _ "''kill''"])
      (simp_all add: js_includes_sublist [symmetric] BANNED_KEYWORDS_def lower_eval)
  have miss: "\<not> spec_contains_denylisted ''Fluid Mechanics''"
    by (simp add: spec_contains_denylisted_def banned_lower lower_fluid
        js_includes_sublist [symmetric] fluid_no_term del: js_includes.simps)
  from checkContentSafety_contract [of "''A sKiLLed worker''"] hit
  have a: "\<not> checkContentSafety (Some ''A sKiLLed worker'')" by (elim conjE) (erule mp)
  from checkContentSafety_contract [of "''Fluid Mechanics''"] miss
  have b: "checkContentSafety (Some ''Fluid Mechanics'')" by (elim conjE) (erule mp)
  from hit a miss b show ?thesis by (intro conjI)
qed

section \<open>The upload pipeline\<close>

text \<open>
  C3. An upload whose topic or description fails the moderation check is answered 400
  "Content flagged by moderation system.", persists no note record and sends nothing to
  the note store. When the storage layer accepted its file, the file was written to the
  blob store before the handler ran and the handler deletes it: the world ends as it was
  but for the deleted path, and exactly as it was when that path held no file before.
  When the request has no file part, there is nothing to delete and the world is left as
  it was.
\<close>

theorem upload_moderation_rollback:
  assumes unsafe: "\<not> checkContentSafety (req_topic req) \<or> \<not> checkContentSafety (req_description req)"
  shows "(req_file req = None \<longrightarrow>
            upload_route e req w =
              (\<lparr>status = 400, body = ErrorJson ''Content flagged by moderation system.''\<rparr>, w)) \<and>
         (req_file req = Some f \<and> mimetype f = ''application/pdf'' \<longrightarrow>
            upload_single e req w =
              Inr (Some \<lparr>originalname = originalname f, mimetype = mimetype f,
                          content = content f, path = storage_path e f\<rparr>,
                   w\<lparr>blob_store := (blob_store w)(storage_path e f \<mapsto> content f)\<rparr>) \<and>
            fst (upload_route e req w) =
              \<lparr>status = 400, body = ErrorJson ''Content flagged by moderation system.''\<rparr> \<and>
            snd (upload_route e req w) =
              w\<lparr>blob_store := (blob_store w)(storage_path e f := None)\<rparr> \<and>
            (blob_store w (storage_path e f) = None \<longrightarrow> snd (upload_route e req w) = w))"
proof -
  have none_case: "upload_route e req w =
      (\<lparr>status = 400, body = ErrorJson ''Content flagged by moderation system.''\<rparr>, w)"
    if "req_file req = None"
    using unsafe that by (auto simp: upload_route_def upload_single_none upload_handler_def)
  have pdf_case: "upload_single e req w =
          Inr (Some \<lparr>originalname = originalname f, mimetype = mimetype f,
                      content = content f, path = storage_path e f\<rparr>,
               w\<lparr>blob_store := (blob_store w)(storage_path e f \<mapsto> content f)\<rparr>) \<and>
        fst (upload_route e req w) =
          \<lparr>status = 400, body = ErrorJson ''Content flagged by moderation system.''\<rparr> \<and>
        snd (upload_route e req w) =
          w\<lparr>blob_store := (blob_store w)(storage_path e f := None)\<rparr> \<and>
        (blob_store w (storage_path e f) = None \<longrightarrow> snd (upload_route e req w) = w)"
    if pdf: "req_file req = Some f" "mimetype f = ''application/pdf''"
  proof -
    have "blob_store w (storage_path e f) = None \<Longrightarrow>
        (blob_store w)(storage_path e f := None) = blob_store w"
      by (rule ext) simp
    with unsafe show ?thesis
      by (auto simp: upload_route_def upload_single_pdf [OF pdf] upload_handler_def
          fs_unlinkSync_def)
  qed
  show ?thesis
  proof (rule conjI)
    show "req_file req = None \<longrightarrow>
            upload_route e req w =
              (\<lparr>status = 400, body = ErrorJson ''Content flagged by moderation system.''\<rparr>, w)"
      by (rule impI) (rule none_case)
  next
    show "req_file req = Some f \<and> mimetype f = ''application/pdf'' \<longrightarrow>
            upload_single e req w =
              Inr (Some \<lparr>originalname = originalname f, mimetype = mimetype f,
                          content = content f, path = storage_path e f\<rparr>,
                   w\<lparr>blob_store := (blob_store w)(storage_path e f \<mapsto> content f)\<rparr>) \<and>
            fst (upload_route e req w) =
              \<lparr>status = 400, body = ErrorJson ''Content flagged by moderation system.''\<rparr> \<and>
            snd (upload_route e req w) =
              w\<lparr>blob_store := (blob_store w)(storage_path e f := None)\<rparr> \<and>
            (blob_store w (storage_path e f) = None \<longrightarrow> snd (upload_route e req w) = w)"
      by (rule impI, erule conjE) (rule pdf_case)
  qed
qed

theorem upload_moderation_rollback_witness:
  "\<not> checkContentSafety (Some ''Blood flow'') \<and>
   upload_route sample_env (sample_request\<lparr>req_topic := Some ''Blood flow''\<rparr>) empty_world =
     (\<lparr>status = 400, body = ErrorJson ''Content flagged by moderation system.''\<rparr>, empty_world) \<and>
   upload_route sample_env
     (sample_request\<lparr>req_topic := Some ''Blood flow'', req_file := None\<rparr>) empty_world =
     (\<lparr>status = 400, body = ErrorJson ''Content flagged by moderation system.''\<rparr>, empty_world)"
  using upload_moderation_rollback
    [where req = "sample_request\<lparr>req_topic := Some ''Blood flow''\<rparr>" and f = sample_pdf
       and e = sample_env and w = empty_world]
    upload_moderation_rollback
    [where req = "sample_request\<lparr>req_topic := Some ''Blood flow'', req_file := None\<rparr>"
       and f = sample_pdf and e = sample_env and w = empty_world]
    unsafe_Blood_flow
  by (simp add: prod_eq_iff)

text \<open>
  C4, as amended. An upload with no file part is answered 400, and the moderation check
  comes first: the error is "No file uploaded." when topic and description both pass
  moderation, and "Content flagged by moderation system." when either fails. Nothing is
  stored.
\<close>

theorem upload_no_file:
  assumes "req_file req = None"
  shows "upload_route e req w =
           (\<lparr>status = 400,
             body = ErrorJson
               (if checkContentSafety (req_topic req) \<and> checkContentSafety (req_description req)
                then ''No file uploaded.'' else ''Content flagged by moderation system.'')\<rparr>, w)"
  using assms by (auto simp: upload_route_def upload_single_none upload_handler_def)

theorem upload_no_file_witness:
  "upload_route sample_env (sample_request\<lparr>req_file := None\<rparr>) empty_world =
     (\<lparr>status = 400, body = ErrorJson ''No file uploaded.''\<rparr>, empty_world)"
  using upload_no_file [where req = "sample_request\<lparr>req_file := None\<rparr>" and e = sample_env
      and w = empty_world]
  by (simp add: safe_Bernoulli safe_intro)

text \<open>
  C4 as stated fails: an upload with no file part and the topic "KILL" is answered with
  the moderation error, not with "No file uploaded.".
\<close>

theorem upload_no_file_counterexample:
  "fst (upload_route sample_env (sample_request\<lparr>req_topic := Some ''KILL'', req_file := None\<rparr>)
          empty_world) =
     \<lparr>status = 400, body = ErrorJson ''Content flagged by moderation system.''\<rparr> \<and>
   fst (upload_route sample_env (sample_request\<lparr>req_topic := Some ''KILL'', req_file := None\<rparr>)
          empty_world) \<noteq>
     \<lparr>status = 400, body = ErrorJson ''No file uploaded.''\<rparr>"
  by (simp add: upload_route_def upload_single_none upload_handler_def unsafe_KILL)

text \<open>
  C5. An upload whose file part is not of type \<open>application/pdf\<close> never reaches the
  handler, keeps no blob and creates no note record, but the answer is the 500 of the
  default error handler (with the message "Only PDF files are allowed!"), not a 4xx.
\<close>

theorem upload_non_pdf:
  assumes "req_file req = Some f" "mimetype f \<noteq> ''application/pdf''"
  shows "upload_route e req w =
           (\<lparr>status = 500, body = ErrorPage ''Only PDF files are allowed!''\<rparr>, w)"
  by (simp add: upload_route_def upload_single_other [OF assms] default_error_handler_def)

theorem upload_non_pdf_witness:
  "upload_route sample_env
     (sample_request\<lparr>req_file := Some (sample_pdf\<lparr>mimetype := ''image/png''\<rparr>)\<rparr>) empty_world =
     (\<lparr>status = 500, body = ErrorPage ''Only PDF files are allowed!''\<rparr>, empty_world)"
  using upload_non_pdf
    [where req = "sample_request\<lparr>req_file := Some (sample_pdf\<lparr>mimetype := ''image/png''\<rparr>)\<rparr>"
       and f = "sample_pdf\<lparr>mimetype := ''image/png''\<rparr>" and e = sample_env and w = empty_world]
  by simp

text \<open>
  C6, as amended. An upload with a PDF file part, a topic and a description that pass
  moderation, non-empty branch, subject and topic, and a working database: the answer is
  201 "Upload successful!", exactly one note record is appended to the note store, its
  \<open>filePath\<close> is the stored path of the blob with every backslash replaced by a forward
  slash, its \<open>originalName\<close> is the original file name, and the blob is kept.
\<close>

theorem upload_success:
  assumes pdf: "req_file req = Some f" "mimetype f = ''application/pdf''"
    and safe: "checkContentSafety (req_topic req)" "checkContentSafety (req_description req)"
    and fields: "req_branch req = Some b" "b \<noteq> []" "req_subject req = Some s" "s \<noteq> []"
      "req_topic req = Some t" "t \<noteq> []"
    and db: "db_fault w = None"
  shows "fst (upload_route e req w) = \<lparr>status = 201, body = MessageJson ''Upload successful!''\<rparr> \<and>
         note_store (snd (upload_route e req w)) =
           note_store w @
             [\<lparr>branch = b, subject = s, topic = t, description = req_description req,
               filePath = replace_backslashes (storage_path e f),
               originalName = originalname f, uploadDate = note_clock e\<rparr>] \<and>
         replace_backslashes (storage_path e f) =
           map (\<lambda>c. if c = CHR 0x5C then CHR ''/'' else c) (storage_path e f) \<and>
         CHR 0x5C \<notin> set (replace_backslashes (storage_path e f)) \<and>
         blob_store (snd (upload_route e req w)) (storage_path e f) = Some (content f)"
  by (simp add: upload_route_accepted [OF assms] no_backslash)
    (simp add: replace_backslashes_def)

theorem upload_success_witness:
  "fst (upload_route sample_env sample_request empty_world) =
     \<lparr>status = 201, body = MessageJson ''Upload successful!''\<rparr> \<and>
   note_store (snd (upload_route sample_env sample_request empty_world)) =
     [\<lparr>branch = ''Civil'', subject = ''Fluid Mechanics'', topic = ''Bernoulli'',
       description = Some ''intro'', filePath = ''uploads/42-my-notes.pdf'',
       originalName = ''my  notes.pdf'', uploadDate = 43\<rparr>]"
  using upload_success
    [where req = sample_request and f = sample_pdf and e = sample_env and w = empty_world
       and b = "''Civil''" and s = "''Fluid Mechanics''" and t = "''Bernoulli''"]
  by (simp add: safe_Bernoulli safe_intro sample_path replace_backslashes_def)

text \<open>
  C6 as stated fails: with a PDF file part and a safe topic and description, an upload
  with no branch is answered 500 and persists no note record, and so is any upload while
  the database is failing.
\<close>

theorem upload_success_counterexample:
  "status (fst (upload_route sample_env (sample_request\<lparr>req_branch := None\<rparr>) empty_world)) = 500 \<and>
   note_store (snd (upload_route sample_env (sample_request\<lparr>req_branch := None\<rparr>) empty_world)) = [] \<and>
   status (fst (upload_route sample_env sample_request
     (empty_world\<lparr>db_fault := Some ''connection refused''\<rparr>))) = 500 \<and>
   note_store (snd (upload_route sample_env sample_request
     (empty_world\<lparr>db_fault := Some ''connection refused''\<rparr>))) = []"
  by (simp add: upload_route_def upload_single_pdf [where f = sample_pdf] upload_handler_def
      safe_Bernoulli safe_intro Note_save_def missing_paths_def required_missing_def Let_def)

text \<open>
  C10. The moderation filter reads the topic and the description only: an upload with a
  PDF file part whose topic and description are safe is not rejected by moderation,
  whatever its branch and subject are, and its blob is not deleted.
\<close>

theorem moderation_ignores_branch_and_subject:
  assumes pdf: "req_file req = Some f" "mimetype f = ''application/pdf''"
    and safe: "checkContentSafety (req_topic req)" "checkContentSafety (req_description req)"
  shows "fst (upload_route e (req\<lparr>req_branch := b, req_subject := s\<rparr>) w) \<noteq>
           \<lparr>status = 400, body = ErrorJson ''Content flagged by moderation system.''\<rparr> \<and>
         blob_store (snd (upload_route e (req\<lparr>req_branch := b, req_subject := s\<rparr>) w))
           (storage_path e f) = Some (content f)"
proof -
  let ?req = "req\<lparr>req_branch := b, req_subject := s\<rparr>"
  have f': "req_file ?req = Some f" using pdf by simp
  show ?thesis using safe
    by (auto simp: upload_route_def upload_single_pdf [OF f' pdf(2)] upload_handler_def
        Note_save_def Let_def split: option.splits)
qed

theorem moderation_ignores_branch_and_subject_witness:
  "\<not> checkContentSafety (Some ''KILL'') \<and> \<not> checkContentSafety (Some ''Blood flow'') \<and>
   fst (upload_route sample_env
          (sample_request\<lparr>req_branch := Some ''KILL'', req_subject := Some ''Blood flow''\<rparr>)
          empty_world) \<noteq>
     \<lparr>status = 400, body = ErrorJson ''Content flagged by moderation system.''\<rparr>"
  using moderation_ignores_branch_and_subject
    [where req = sample_request and f = sample_pdf and e = sample_env and w = empty_world
       and b = "Some ''KILL''" and s = "Some ''Blood flow''"]
  by (simp add: safe_Bernoulli safe_intro unsafe_KILL unsafe_Blood_flow)

section \<open>The search pipeline\<close>

text \<open>
  C7. A search whose \<open>q\<close> is absent or empty is answered \<open>{internal: [], external: null}\<close>,
  and the world, the log of note store operations included, is left as it was: the note
  store is not queried.
\<close>

theorem search_short_circuit:
  assumes "query_q req = None \<or> query_q req = Some ''''"
  shows "search_route engine req w = (\<lparr>status = 200, body = SearchJson [] None\<rparr>, w)"
  using assms by (auto simp: search_route_def)

theorem search_short_circuit_witness:
  "search_route topic_engine \<lparr>query_q = Some '''', query_branch = Some ''Civil''\<rparr>
     (empty_world\<lparr>note_store := [sample_note '''' 1]\<rparr>) =
     (\<lparr>status = 200, body = SearchJson [] None\<rparr>, empty_world\<lparr>note_store := [sample_note '''' 1]\<rparr>) \<and>
   search_route topic_engine \<lparr>query_q = None, query_branch = None\<rparr> empty_world =
     (\<lparr>status = 200, body = SearchJson [] None\<rparr>, empty_world)"
  using search_short_circuit
    [where req = "\<lparr>query_q = Some '''', query_branch = Some ''Civil''\<rparr>" and engine = topic_engine
       and w = "empty_world\<lparr>note_store := [sample_note '''' 1]\<rparr>"]
    search_short_circuit
    [where req = "\<lparr>query_q = None, query_branch = None\<rparr>" and engine = topic_engine
       and w = empty_world]
  by simp

text \<open>
  C1. A search with a non-empty \<open>q\<close> whose note store query returns its results: with
  fewer than 3 results, \<open>external\<close> is the record with source "External Knowledge Base",
  title "Concept Summary: q" and the templated summary naming \<open>q\<close> and the \<open>branch\<close>
  parameter ("engineering" when it is absent or empty); with 3 results or more,
  \<open>external\<close> is null.
\<close>

theorem search_external_threshold:
  assumes "query_q req = Some q" "q \<noteq> []"
    and "fst (Note_find_text engine q w) = Inr internal"
  shows "fst (search_route engine req w) =
           \<lparr>status = 200,
            body = SearchJson internal
              (if length internal < 3
               then Some \<lparr>source = ''External Knowledge Base'',
                          title = ''Concept Summary: '' @ q,
                          summary =
                            ''We found limited local PDFs, but here is what you need to know about '' @ q @
                            ''. This topic usually covers foundational principles in '' @
                            (case query_branch req of None \<Rightarrow> ''engineering''
                             | Some br \<Rightarrow> if br = [] then ''engineering'' else br) @
                            ''. Important questions often involve derivations and practical applications.''\<rparr>
               else None)\<rparr>"
  using assms
  by (auto simp: search_route_def fallback_summary_def branch_hint_def Let_def
      split: prod.splits sum.splits)

theorem search_external_threshold_witness:
  "fst (search_route topic_engine \<lparr>query_q = Some ''thermodynamics'', query_branch = None\<rparr>
     (empty_world\<lparr>note_store := [sample_note ''thermodynamics'' 1, sample_note ''optics'' 2,
        sample_note ''thermodynamics'' 3]\<rparr>)) =
     \<lparr>status = 200,
      body = SearchJson [sample_note ''thermodynamics'' 1, sample_note ''thermodynamics'' 3]
        (Some \<lparr>source = ''External Knowledge Base'',
                title = ''Concept Summary: thermodynamics'',
                summary = ''We found limited local PDFs, but here is what you need to know about thermodynamics. This topic usually covers foundational principles in engineering. Important questions often involve derivations and practical applications.''\<rparr>)\<rparr> \<and>
   fst (search_route topic_engine \<lparr>query_q = Some ''optics'', query_branch = Some ''Civil''\<rparr>
     (empty_world\<lparr>note_store := [sample_note ''optics'' 1, sample_note ''optics'' 2,
        sample_note ''optics'' 3]\<rparr>)) =
     \<lparr>status = 200,
      body = SearchJson [sample_note ''optics'' 1, sample_note ''optics'' 2, sample_note ''optics'' 3]
        None\<rparr>"
proof -
  have two: "fst (Note_find_text topic_engine ''thermodynamics''
      (empty_world\<lparr>note_store := [sample_note ''thermodynamics'' 1, sample_note ''optics'' 2,
        sample_note ''thermodynamics'' 3]\<rparr>)) =
      Inr [sample_note ''thermodynamics'' 1, sample_note ''thermodynamics'' 3]"
    by (simp add: Note_find_text_def)
  have three: "fst (Note_find_text topic_engine ''optics''
      (empty_world\<lparr>note_store := [sample_note ''optics'' 1, sample_note ''optics'' 2,
        sample_note ''optics'' 3]\<rparr>)) =
      Inr [sample_note ''optics'' 1, sample_note ''optics'' 2, sample_note ''optics'' 3]"
    by (simp add: Note_find_text_def)
  show ?thesis
    using search_external_threshold
      [where req = "\<lparr>query_q = Some ''thermodynamics'', query_branch = None\<rparr>"
         and q = "''thermodynamics''", OF _ _ two]
      search_external_threshold
      [where req = "\<lparr>query_q = Some ''optics'', query_branch = Some ''Civil''\<rparr>"
         and q = "''optics''", OF _ _ three]
    by simp
qed

text \<open>
  C8. The internal results of a search are at most 10 note records: both the sequence
  the full-text query returns and the sequence any search response carries.
\<close>

theorem search_at_most_10:
  "length (response_notes (fst (search_route engine req w))) \<le> 10 \<and>
   (\<forall>found. fst (Note_find_text engine q w) = Inr found \<longrightarrow> length found \<le> 10)"
  by (auto simp: response_notes_def search_route_def Note_find_text_def Let_def split: option.splits)

theorem search_at_most_10_witness:
  "fst (Note_find_text topic_engine ''heat''
     (empty_world\<lparr>note_store := map (sample_note ''heat'') [1, 2, 3, 4, 5, 6, 7, 8, 9, 10, 11, 12]\<rparr>)) =
     Inr (map (sample_note ''heat'') [1, 2, 3, 4, 5, 6, 7, 8, 9, 10]) \<and>
   length (map (sample_note ''heat'') [1, 2, 3, 4, 5, 6, 7, 8, 9, 10]) \<le> 10"
proof -
  have found: "fst (Note_find_text topic_engine ''heat''
     (empty_world\<lparr>note_store := map (sample_note ''heat'') [1, 2, 3, 4, 5, 6, 7, 8, 9, 10, 11, 12]\<rparr>)) =
     Inr (map (sample_note ''heat'') [1, 2, 3, 4, 5, 6, 7, 8, 9, 10])"
    by (simp add: Note_find_text_def)
  from search_at_most_10 [THEN conjunct2, rule_format, OF found] found
  show ?thesis by (intro conjI)
qed

section \<open>The listing\<close>

text \<open>
  C9, as amended. A listing carries at most 20 note records in descending order of
  \<open>uploadDate\<close>, most recent first, where records with equal dates may follow one
  another; the order is strictly descending when the stored upload dates are distinct.
\<close>

theorem listing_recent_descending:
  "length (response_notes (fst (notes_route w))) \<le> 20 \<and>
   descending_dates (response_notes (fst (notes_route w))) \<and>
   (distinct (map uploadDate (note_store w)) \<longrightarrow>
      strictly_descending_dates (response_notes (fst (notes_route w))))"
  by (simp add: notes_route_cases recent_descending recent_strict split: option.splits)
    (simp add: descending_dates_def strictly_descending_dates_def)

theorem listing_recent_descending_witness:
  "distinct (map uploadDate [sample_note ''a'' 5, sample_note ''b'' 9, sample_note ''c'' 7]) \<and>
   response_notes (fst (notes_route
     (empty_world\<lparr>note_store := [sample_note ''a'' 5, sample_note ''b'' 9, sample_note ''c'' 7]\<rparr>))) =
     [sample_note ''b'' 9, sample_note ''c'' 7, sample_note ''a'' 5] \<and>
   strictly_descending_dates (response_notes (fst (notes_route
     (empty_world\<lparr>note_store := [sample_note ''a'' 5, sample_note ''b'' 9, sample_note ''c'' 7]\<rparr>))))"
proof -
  have d: "distinct (map uploadDate (note_store
     (empty_world\<lparr>note_store := [sample_note ''a'' 5, sample_note ''b'' 9, sample_note ''c'' 7]\<rparr>)))"
    by simp
  have r: "response_notes (fst (notes_route
     (empty_world\<lparr>note_store := [sample_note ''a'' 5, sample_note ''b'' 9, sample_note ''c'' 7]\<rparr>))) =
     [sample_note ''b'' 9, sample_note ''c'' 7, sample_note ''a'' 5]"
    by (simp add: notes_route_cases)
  from listing_recent_descending
    [of "empty_world\<lparr>note_store := [sample_note ''a'' 5, sample_note ''b'' 9, sample_note ''c'' 7]\<rparr>"] d
  have "strictly_descending_dates (response_notes (fst (notes_route
     (empty_world\<lparr>note_store := [sample_note ''a'' 5, sample_note ''b'' 9, sample_note ''c'' 7]\<rparr>))))"
    by blast
  with d r show ?thesis by simp
qed

text \<open>
  C9 as stated fails: two uploads saved in the same millisecond have equal upload dates,
  and the listing that carries both is not strictly descending.
\<close>

theorem listing_strict_counterexample:
  "\<not> strictly_descending_dates (response_notes (fst (notes_route
      (snd (upload_route sample_env sample_request
         (snd (upload_route sample_env sample_request empty_world)))))))"
proof -
  have safe: "checkContentSafety (req_topic sample_request)"
    "checkContentSafety (req_description sample_request)"
    by (simp_all add: safe_Bernoulli safe_intro)
  note step = upload_route_accepted
    [where req = sample_request and f = sample_pdf and e = sample_env
       and b = "''Civil''" and s = "''Fluid Mechanics''" and t = "''Bernoulli''", OF _ _ safe]
  show ?thesis
    by (simp add: step notes_route_cases strictly_descending_dates_def)
qed

end
